theory Spec2Isabelle
  imports Complex_Main "HOL-Library.Sublist" "HOL-Library.AList"
begin

section \<open>Data model (app/models/chat.py)\<close>

text \<open>
  The three string enums of the models module. \<open>all_emotions\<close> lists the members of
  \<open>Emotion\<close> in their declaration order, which is the order in which Python iterates
  over the enum; \<open>emotion_value\<close> is the \<open>.value\<close> attribute.
\<close>

datatype Emotion = JOY | ANGER | SADNESS | SURPRISE | FEAR | DISGUST | NEUTRAL

datatype ASDNTMode = ASD | NT

datatype MessageRole = USER | ASSISTANT | SYSTEM

fun emotion_value :: "Emotion \<Rightarrow> string" where
  "emotion_value JOY = ''joy''"
| "emotion_value ANGER = ''anger''"
| "emotion_value SADNESS = ''sadness''"
| "emotion_value SURPRISE = ''surprise''"
| "emotion_value FEAR = ''fear''"
| "emotion_value DISGUST = ''disgust''"
| "emotion_value NEUTRAL = ''neutral''"

definition all_emotions :: "Emotion list" where
  "all_emotions = [JOY, ANGER, SADNESS, SURPRISE, FEAR, DISGUST, NEUTRAL]"

type_synonym datetime = nat

record ChatMessageRequest =
  req_content :: string
  req_emotion :: Emotion
  req_mode :: "ASDNTMode option"

record ChatMessageResponse =
  resp_message :: string
  resp_emotion :: Emotion
  resp_internal_emotion :: Emotion
  resp_timestamp :: datetime

record ChatMessage =
  msg_id :: string
  msg_role :: MessageRole
  msg_content :: string
  msg_timestamp :: datetime
  msg_emotion :: Emotion
  msg_internal_emotion :: "Emotion option"

section \<open>Strings\<close>

text \<open>
  A text is a list of characters; a \<open>char\<close> stands for one code point in the range
  0 to 255. \<open>lower\<close> is \<open>str.lower\<close> on that range: the letters A to Z and the
  capital letters of the Latin-1 supplement (192 to 222 except the multiplication
  sign 215) move up by 32, every other character stays.
\<close>

definition lower_char :: "char \<Rightarrow> char" where
  "lower_char c =
     (let n = (of_char c :: nat)
      in if (65 \<le> n \<and> n \<le> 90) \<or> (192 \<le> n \<and> n \<le> 214) \<or> (216 \<le> n \<and> n \<le> 222)
         then char_of (n + 32) else c)"

definition lower :: "string \<Rightarrow> string" where
  "lower s = map lower_char s"

text \<open>
  \<open>str_in word text\<close> is Python's \<open>word in text\<close> on strings: the word occurs in
  the text as a contiguous block, starting at some position.
\<close>

fun str_in :: "string \<Rightarrow> string \<Rightarrow> bool" where
  "str_in word [] = (word = [])"
| "str_in word (c # cs) = (prefix word (c # cs) \<or> str_in word cs)"

section \<open>EmotionService (app/services/emotion_service.py)\<close>

definition analyze_emotion :: "string \<Rightarrow> Emotion" where
  "analyze_emotion text =
     (let text_lower = lower text
      in if list_ex (\<lambda>word. str_in word text_lower)
              [''happy'', ''joy'', ''great'', ''wonderful'', ''amazing'', ''love'', ''excited'']
         then JOY
         else if list_ex (\<lambda>word. str_in word text_lower)
              [''sad'', ''sorry'', ''bad'', ''terrible'', ''awful'', ''cry'', ''hurt'']
         then SADNESS
         else if list_ex (\<lambda>word. str_in word text_lower)
              [''angry'', ''mad'', ''furious'', ''hate'', ''stupid'', ''annoying'']
         then ANGER
         else if list_ex (\<lambda>word. str_in word text_lower)
              [''scared'', ''afraid'', ''worried'', ''anxious'', ''nervous'', ''fear'']
         then FEAR
         else if list_ex (\<lambda>word. str_in word text_lower)
              [''wow'', ''amazing'', ''surprised'', ''unbelievable'', ''shocked'']
         then SURPRISE
         else if list_ex (\<lambda>word. str_in word text_lower)
              [''disgusting'', ''gross'', ''yuck'', ''terrible'', ''awful'']
         then DISGUST
         else NEUTRAL)"

text \<open>
  The classifier as the specification words it: an ordered table of (label, keyword set)
  pairs, consulted from the front; the first pair with a keyword occurring in the
  lowered text gives the label, and no such pair gives neutral.
\<close>

definition keyword_table :: "(Emotion \<times> string list) list" where
  "keyword_table =
     [(JOY, [''happy'', ''joy'', ''great'', ''wonderful'', ''amazing'', ''love'', ''excited'']),
      (SADNESS, [''sad'', ''sorry'', ''bad'', ''terrible'', ''awful'', ''cry'', ''hurt'']),
      (ANGER, [''angry'', ''mad'', ''furious'', ''hate'', ''stupid'', ''annoying'']),
      (FEAR, [''scared'', ''afraid'', ''worried'', ''anxious'', ''nervous'', ''fear'']),
      (SURPRISE, [''wow'', ''amazing'', ''surprised'', ''unbelievable'', ''shocked'']),
      (DISGUST, [''disgusting'', ''gross'', ''yuck'', ''terrible'', ''awful''])]"

definition set_matches :: "string list \<Rightarrow> string \<Rightarrow> bool" where
  "set_matches kws t = (\<exists>k \<in> set kws. str_in k t)"

fun first_matching_label :: "(Emotion \<times> string list) list \<Rightarrow> string \<Rightarrow> Emotion" where
  "first_matching_label [] t = NEUTRAL"
| "first_matching_label ((e, kws) # rest) t =
     (if set_matches kws t then e else first_matching_label rest t)"

text \<open>
  Floating-point arithmetic. The scores are Python floats; \<open>rnd\<close> is the rounding of
  an exact real result to the float that the operation returns, so a float addition is
  \<open>rnd (a + b)\<close> and a float division is \<open>rnd (a / b)\<close>.
\<close>

definition float_add :: "(real \<Rightarrow> real) \<Rightarrow> real \<Rightarrow> real \<Rightarrow> real" where
  "float_add rnd a b = rnd (a + b)"

definition float_div :: "(real \<Rightarrow> real) \<Rightarrow> real \<Rightarrow> real \<Rightarrow> real" where
  "float_div rnd a b = rnd (a / b)"

text \<open>
  The built-in \<open>sum\<close> on floats. The source pins no Python version, and the interpreter's
  algorithm changed: up to CPython 3.11 it adds the values from left to right
  (\<open>Plain\<close>); from CPython 3.12 on it keeps a compensation term \<open>c\<close> beside the running
  sum (Neumaier's summation) and adds it at the end when it is not zero
  (\<open>Compensated\<close>). The implementation is therefore an input. In both, the start value
  is the integer 0, and the first value is added to it by an ordinary addition.
\<close>

datatype sum_impl = Plain | Compensated

fun compensated_sum :: "(real \<Rightarrow> real) \<Rightarrow> real \<Rightarrow> real \<Rightarrow> real list \<Rightarrow> real" where
  "compensated_sum rnd f_result c [] = (if c \<noteq> 0 then rnd (f_result + c) else f_result)"
| "compensated_sum rnd f_result c (x # xs) =
     (let t = rnd (f_result + x);
          c = (if \<bar>f_result\<bar> \<ge> \<bar>x\<bar> then rnd (c + rnd (rnd (f_result - t) + x))
               else rnd (c + rnd (rnd (x - t) + f_result)))
      in compensated_sum rnd t c xs)"

definition py_sum :: "sum_impl \<Rightarrow> (real \<Rightarrow> real) \<Rightarrow> real list \<Rightarrow> real" where
  "py_sum impl rnd vs =
     (case vs of
        [] \<Rightarrow> 0
      | x # xs \<Rightarrow>
          (case impl of
             Plain \<Rightarrow> foldl (float_add rnd) (float_add rnd 0 x) xs
           | Compensated \<Rightarrow> compensated_sum rnd (float_add rnd 0 x) 0 xs))"

text \<open>
  \<open>analyze_emotion_with_confidence\<close>. The random draws are inputs: \<open>draw e\<close> is the
  value that \<open>random.uniform(0.1, 0.3)\<close> returns for the label \<open>e\<close> in the dict
  comprehension, and \<open>confidence\<close> is the value that \<open>random.uniform(0.7, 0.95)\<close>
  returns. The dict of scores is an association list in insertion order, and
  \<open>AList.update\<close> is the item assignment (the key is present, so its value is replaced
  in place).
\<close>

definition analyze_emotion_with_confidence ::
  "sum_impl \<Rightarrow> (real \<Rightarrow> real) \<Rightarrow> (Emotion \<Rightarrow> real) \<Rightarrow> real \<Rightarrow> string
     \<Rightarrow> Emotion \<times> real \<times> (string \<times> real) list" where
  "analyze_emotion_with_confidence impl rnd draw confidence text =
     (let emotion = analyze_emotion text;
          scores = map (\<lambda>e. (emotion_value e, draw e)) all_emotions;
          scores = AList.update (emotion_value emotion) confidence scores;
          total = py_sum impl rnd (map snd scores);
          scores = map (\<lambda>(k, v). (k, float_div rnd v total)) scores
      in (emotion, confidence, scores))"

text \<open>
  The hypotheses on the inputs of \<open>analyze_emotion_with_confidence\<close>.

  The draws: \<open>random.uniform(a, b)\<close> returns the float \<open>a + (b - a) * random()\<close> with
  \<open>random()\<close> in \<open>[0, 1)\<close>, where \<open>a\<close> and \<open>b\<close> are the binary64 values of the
  literals. These are not the decimal fractions (the float 0.7 lies below 7/10, the float
  0.1 above 1/10), and the result is rounded, so the outcomes lie within a few units in
  the last place of \<open>[a, b]\<close>. \<open>draws_in_range\<close> admits every value within 1/100 of the
  decimal range, which contains all of them.

  The rounding: binary64 rounding to nearest, on results of magnitude at most 8. It is
  monotone, and its error is at most \<open>2 ^ -51\<close>, half the distance between neighbouring
  floats below 8.
\<close>

definition draws_in_range :: "(Emotion \<Rightarrow> real) \<Rightarrow> real \<Rightarrow> bool" where
  "draws_in_range draw confidence \<longleftrightarrow>
     (\<forall>e \<in> set all_emotions. 9 / 100 \<le> draw e \<and> draw e \<le> 31 / 100)
     \<and> 69 / 100 \<le> confidence \<and> confidence \<le> 96 / 100"

definition rounds_like_float :: "(real \<Rightarrow> real) \<Rightarrow> bool" where
  "rounds_like_float rnd \<longleftrightarrow>
     (\<forall>x. \<bar>x\<bar> \<le> 8 \<longrightarrow> \<bar>rnd x - x\<bar> \<le> 1 / 2 ^ 51)
     \<and> (\<forall>x y. - 8 \<le> x \<and> x \<le> y \<and> y \<le> 8 \<longrightarrow> rnd x \<le> rnd y)"

section \<open>ChatService (app/services/chat_service.py)\<close>

text \<open>
  The service object holds the message log. The identifiers and the clock readings
  that \<open>process_message\<close> takes from \<open>uuid.uuid4\<close> and \<open>datetime.now\<close> are inputs,
  in the order in which the method reads them.
\<close>

record ChatService =
  messages :: "ChatMessage list"

record Effects =
  user_uuid :: string
  user_now :: datetime
  ai_uuid :: string
  ai_now :: datetime
  resp_now :: datetime

definition init_service :: ChatService where
  "init_service = \<lparr>messages = []\<rparr>"

definition asd_responses :: "(string \<times> string) list" where
  "asd_responses =
     [(''hello'', ''Hello. How can I help you?''),
      (''how are you'', ''I am functioning normally. Thank you for asking.''),
      (''what do you mean'',
       ''I mean exactly what I said. Could you be more specific about what part you don't understand?''),
      (''thanks'', ''You're welcome.'')]"

definition nt_responses :: "(string \<times> string) list" where
  "nt_responses =
     [(''hello'', ''Hi there! Great to see you! How's your day going?''),
      (''how are you'', ''I'm doing wonderful, thanks for asking! How about you?''),
      (''what do you mean'',
       ''Oh, I can see how that might be confusing! Let me explain it differently...''),
      (''thanks'', ''Aww, you're so sweet! Happy to help anytime!'')]"

text \<open>
  The loop over \<open>responses.items()\<close>: the reply of the first key, in insertion order,
  that occurs in the lowered content; \<open>None\<close> when the loop ends without returning.
\<close>

fun first_response :: "(string \<times> string) list \<Rightarrow> string \<Rightarrow> string option" where
  "first_response [] content_lower = None"
| "first_response ((key, response) # rest) content_lower =
     (if str_in key content_lower then Some response
      else first_response rest content_lower)"

definition generate_asd_response :: "string \<Rightarrow> string" where
  "generate_asd_response content =
     (let content_lower = lower content
      in case first_response asd_responses content_lower of
           Some response \<Rightarrow> response
         | None \<Rightarrow> ''I understand you said: '' @ [CHR 0x27] @ content @ [CHR 0x27]
                    @ ''. Could you please clarify what you would like me to do?'')"

definition generate_nt_response :: "string \<Rightarrow> string" where
  "generate_nt_response content =
     (let content_lower = lower content
      in case first_response nt_responses content_lower of
           Some response \<Rightarrow> response
         | None \<Rightarrow> ''That's really interesting! I'd love to hear more about what you're thinking.'')"

definition adjust_expressed_emotion :: "Emotion \<Rightarrow> Emotion" where
  "adjust_expressed_emotion internal_emotion =
     (if internal_emotion = SADNESS then NEUTRAL
      else if internal_emotion = ANGER then NEUTRAL
      else if internal_emotion = FEAR then NEUTRAL
      else internal_emotion)"

definition process_message ::
  "Effects \<Rightarrow> ChatMessageRequest \<Rightarrow> ASDNTMode \<Rightarrow> ChatService
     \<Rightarrow> ChatMessageResponse \<times> ChatService" where
  "process_message fx request mode self =
     (let user_message = \<lparr>msg_id = user_uuid fx, msg_role = USER,
                           msg_content = req_content request, msg_timestamp = user_now fx,
                           msg_emotion = req_emotion request, msg_internal_emotion = None\<rparr>;
          self = self\<lparr>messages := messages self @ [user_message]\<rparr>;
          (response_text, internal_emotion, expressed_emotion) =
            (if mode = ASD
             then (let response_text = generate_asd_response (req_content request);
                       internal_emotion = analyze_emotion (req_content request);
                       expressed_emotion = internal_emotion
                   in (response_text, internal_emotion, expressed_emotion))
             else (let response_text = generate_nt_response (req_content request);
                       internal_emotion = analyze_emotion (req_content request);
                       expressed_emotion = adjust_expressed_emotion internal_emotion
                   in (response_text, internal_emotion, expressed_emotion)));
          ai_message = \<lparr>msg_id = ai_uuid fx, msg_role = ASSISTANT,
                         msg_content = response_text, msg_timestamp = ai_now fx,
                         msg_emotion = expressed_emotion,
                         msg_internal_emotion = Some internal_emotion\<rparr>;
          self = self\<lparr>messages := messages self @ [ai_message]\<rparr>
      in (\<lparr>resp_message = response_text, resp_emotion = expressed_emotion,
            resp_internal_emotion = internal_emotion, resp_timestamp = resp_now fx\<rparr>,
          self))"

definition get_history :: "ChatService \<Rightarrow> ChatMessage list \<times> ChatService" where
  "get_history self = (messages self, self)"

definition clear_history :: "ChatService \<Rightarrow> bool \<times> ChatService" where
  "clear_history self = (True, self\<lparr>messages := []\<rparr>)"

text \<open>
  A run of the service: a sequence of calls of \<open>process_message\<close> and
  \<open>clear_history\<close>, applied in order to a service object.
\<close>

datatype call = Process Effects ChatMessageRequest ASDNTMode | Clear

fun do_call :: "call \<Rightarrow> ChatService \<Rightarrow> ChatService" where
  "do_call (Process fx request mode) self = snd (process_message fx request mode self)"
| "do_call Clear self = snd (clear_history self)"

definition run :: "call list \<Rightarrow> ChatService \<Rightarrow> ChatService" where
  "run calls self = foldl (\<lambda>s c. do_call c s) self calls"

section \<open>Specification-level definitions\<close>

text \<open>
  The suppression rule as the specification words it: sadness, anger and fear become
  neutral, every other emotion passes through.
\<close>

definition suppress :: "Emotion \<Rightarrow> Emotion" where
  "suppress e = (if e \<in> {SADNESS, ANGER, FEAR} then NEUTRAL else e)"

text \<open>
  The invariant of the message log, for one message: an assistant message has its
  \<open>internal_emotion\<close> set, a user message has it unset.
\<close>

definition well_formed :: "ChatMessage \<Rightarrow> bool" where
  "well_formed m \<longleftrightarrow>
     (msg_role m = ASSISTANT \<longrightarrow> msg_internal_emotion m \<noteq> None)
     \<and> (msg_role m = USER \<longrightarrow> msg_internal_emotion m = None)"

section \<open>Concrete inputs\<close>

text \<open>
  Two requests with the identifiers and clock readings of their calls, and the two
  fields of a logged message that the invariant is about.
\<close>

definition log_line :: "ChatMessage \<Rightarrow> MessageRole \<times> Emotion option" where
  "log_line m = (msg_role m, msg_internal_emotion m)"

definition fx1 :: Effects where
  "fx1 = \<lparr>user_uuid = ''u1'', user_now = 1, ai_uuid = ''a1'', ai_now = 2, resp_now = 3\<rparr>"

definition fx2 :: Effects where
  "fx2 = \<lparr>user_uuid = ''u2'', user_now = 4, ai_uuid = ''a2'', ai_now = 5, resp_now = 6\<rparr>"

definition req1 :: ChatMessageRequest where
  "req1 = \<lparr>req_content = ''hello'', req_emotion = JOY, req_mode = None\<rparr>"

definition req2 :: ChatMessageRequest where
  "req2 = \<lparr>req_content = ''I hate this'', req_emotion = NEUTRAL, req_mode = Some NT\<rparr>"

text \<open>
  A rounding that changes nothing, and draws that are binary fractions, for a run on which
  the float operations are exact.
\<close>

definition exact :: "real \<Rightarrow> real" where
  "exact x = x"

fun sample_draw :: "Emotion \<Rightarrow> real" where
  "sample_draw FEAR = 1 / 8"
| "sample_draw NEUTRAL = 1 / 8"
| "sample_draw e = 1 / 4"

section \<open>Strings: basic facts\<close>

lemma str_in_iff_sublist: "str_in w t \<longleftrightarrow> sublist w t"
  by (induction t) (auto simp: sublist_Cons_right)

lemma str_in_iff: "str_in w t \<longleftrightarrow> (\<exists>ps ss. t = ps @ w @ ss)"
  by (simp add: str_in_iff_sublist sublist_def)

lemma list_ex_set_matches: "list_ex (\<lambda>word. str_in word t) kws = set_matches kws t"
  by (simp add: set_matches_def list_ex_iff)


section \<open>The keyword classifier\<close>

lemma first_matching_label_cases:
  "(\<exists>i < length T. set_matches (snd (T ! i)) t
      \<and> (\<forall>j < i. \<not> set_matches (snd (T ! j)) t)
      \<and> first_matching_label T t = fst (T ! i))
   \<or> ((\<forall>i < length T. \<not> set_matches (snd (T ! i)) t) \<and> first_matching_label T t = NEUTRAL)"
proof (induction T)
  case Nil
  then show ?case by simp
next
  case (Cons p T)
  obtain e kws where p: "p = (e, kws)" by (cases p)
  show ?case
  proof (cases "set_matches kws t")
    case True
    then have "0 < length (p # T) \<and> set_matches (snd ((p # T) ! 0)) t
        \<and> (\<forall>j < 0. \<not> set_matches (snd ((p # T) ! j)) t)
        \<and> first_matching_label (p # T) t = fst ((p # T) ! 0)"
      using p by simp
    then show ?thesis by blast
  next
    case False
    from Cons.IH show ?thesis
    proof
      assume "\<exists>i<length T. set_matches (snd (T ! i)) t
          \<and> (\<forall>j<i. \<not> set_matches (snd (T ! j)) t)
          \<and> first_matching_label T t = fst (T ! i)"
      then obtain i where i: "i < length T" "set_matches (snd (T ! i)) t"
          "\<forall>j<i. \<not> set_matches (snd (T ! j)) t" "first_matching_label T t = fst (T ! i)"
        by blast
      have "\<forall>j<Suc i. \<not> set_matches (snd ((p # T) ! j)) t"
        using i(3) False p by (auto simp: less_Suc_eq_0_disj)
      with i False p have "Suc i < length (p # T) \<and> set_matches (snd ((p # T) ! Suc i)) t
          \<and> (\<forall>j<Suc i. \<not> set_matches (snd ((p # T) ! j)) t)
          \<and> first_matching_label (p # T) t = fst ((p # T) ! Suc i)"
        by simp
      then show ?thesis by blast
    next
      assume a: "(\<forall>i<length T. \<not> set_matches (snd (T ! i)) t)
          \<and> first_matching_label T t = NEUTRAL"
      then have "\<forall>i<length (p # T). \<not> set_matches (snd ((p # T) ! i)) t"
        using False p by (auto simp: less_Suc_eq_0_disj)
      with a False p show ?thesis by simp
    qed
  qed
qed

lemma analyze_emotion_table:
  "analyze_emotion text = first_matching_label keyword_table (lower text)"
  by (simp add: analyze_emotion_def keyword_table_def list_ex_set_matches Let_def)

text \<open>
  Claim C1. \<open>analyze_emotion\<close> lower-cases the text and consults the keyword sets in the
  order joy, sadness, anger, fear, surprise, disgust: its result is the label of the
  first set that has a keyword occurring in the lowered text (no earlier set has one,
  whatever the later sets contain), and it is neutral when no set has one.
\<close>

theorem analyze_emotion_priority:
  "map fst keyword_table = [JOY, SADNESS, ANGER, FEAR, SURPRISE, DISGUST]
   \<and> analyze_emotion text = first_matching_label keyword_table (lower text)
   \<and> ((\<exists>i < length keyword_table.
          set_matches (snd (keyword_table ! i)) (lower text)
          \<and> (\<forall>j < i. \<not> set_matches (snd (keyword_table ! j)) (lower text))
          \<and> analyze_emotion text = fst (keyword_table ! i))
       \<or> ((\<forall>i < length keyword_table. \<not> set_matches (snd (keyword_table ! i)) (lower text))
           \<and> analyze_emotion text = NEUTRAL))"
proof -
  have "map fst keyword_table = [JOY, SADNESS, ANGER, FEAR, SURPRISE, DISGUST]"
    by (simp add: keyword_table_def)
  moreover have "analyze_emotion text = first_matching_label keyword_table (lower text)"
    by (rule analyze_emotion_table)
  ultimately show ?thesis
    using first_matching_label_cases [of keyword_table "lower text"] by simp
qed

text \<open>
  A text with a sadness keyword and a fear keyword and no joy keyword: sadness wins.
\<close>

theorem analyze_emotion_priority_witness:
  "set_matches (snd (keyword_table ! 1)) (lower ''I am SAD and scared'')
   \<and> set_matches (snd (keyword_table ! 3)) (lower ''I am SAD and scared'')
   \<and> \<not> set_matches (snd (keyword_table ! 0)) (lower ''I am SAD and scared'')
   \<and> first_matching_label keyword_table (lower ''I am SAD and scared'') = SADNESS
   \<and> analyze_emotion ''I am SAD and scared'' = SADNESS"
proof -
  have "set_matches (snd (keyword_table ! 1)) (lower ''I am SAD and scared'')"
    by code_simp
  moreover have "set_matches (snd (keyword_table ! 3)) (lower ''I am SAD and scared'')"
    by code_simp
  moreover have "\<not> set_matches (snd (keyword_table ! 0)) (lower ''I am SAD and scared'')"
    by code_simp
  moreover have "first_matching_label keyword_table (lower ''I am SAD and scared'') = SADNESS"
    by code_simp
  ultimately show ?thesis
    using analyze_emotion_priority [of "''I am SAD and scared''"] by simp
qed

text \<open>
  Claim C10. \<open>analyze_emotion\<close> returns disgust only if the lowered text contains
  "disgusting", "gross" or "yuck". A text containing "terrible" or "awful" is never
  classified as disgust, and when these two are its only emotion keywords it is
  classified as sadness: both words are in the sadness set, which is consulted earlier.
\<close>

theorem disgust_only_by_own_keywords:
  "(analyze_emotion text = DISGUST \<longrightarrow>
      str_in ''disgusting'' (lower text) \<or> str_in ''gross'' (lower text)
      \<or> str_in ''yuck'' (lower text))
   \<and> (str_in ''terrible'' (lower text) \<or> str_in ''awful'' (lower text) \<longrightarrow>
        analyze_emotion text \<noteq> DISGUST)
   \<and> ((str_in ''terrible'' (lower text) \<or> str_in ''awful'' (lower text))
       \<and> (\<forall>k \<in> set (concat (map snd keyword_table)).
             str_in k (lower text) \<longrightarrow> k = ''terrible'' \<or> k = ''awful'')
       \<longrightarrow> analyze_emotion text = SADNESS)"
  by (auto simp add: analyze_emotion_def keyword_table_def Let_def)

text \<open>
  A text that is classified as disgust, through "yuck" and "gross", and a text whose only
  keyword is "terrible".
\<close>

theorem disgust_only_by_own_keywords_witness:
  "analyze_emotion ''Yuck, how GROSS'' = DISGUST
   \<and> str_in ''yuck'' (lower ''Yuck, how GROSS'')
   \<and> str_in ''terrible'' (lower ''That was Terrible'')
   \<and> filter (\<lambda>k. str_in k (lower ''That was Terrible'')) (concat (map snd keyword_table))
       = [''terrible'', ''terrible'']
   \<and> analyze_emotion ''That was Terrible'' = SADNESS"
proof -
  have "analyze_emotion ''Yuck, how GROSS'' = DISGUST"
    by code_simp
  moreover have "str_in ''yuck'' (lower ''Yuck, how GROSS'')"
    by code_simp
  moreover have "str_in ''terrible'' (lower ''That was Terrible'')"
    by code_simp
  moreover have "\<forall>k \<in> set (concat (map snd keyword_table)).
      str_in k (lower ''That was Terrible'') \<longrightarrow> k = ''terrible'' \<or> k = ''awful''"
    by code_simp
  moreover have "filter (\<lambda>k. str_in k (lower ''That was Terrible''))
      (concat (map snd keyword_table)) = [''terrible'', ''terrible'']"
    by code_simp
  ultimately show ?thesis
    using disgust_only_by_own_keywords [of "''Yuck, how GROSS''"]
      disgust_only_by_own_keywords [of "''That was Terrible''"]
    by simp
qed

section \<open>Scores with confidence\<close>

lemma rnd_error:
  assumes "rounds_like_float rnd" and "\<bar>x\<bar> \<le> 8"
  shows "\<bar>rnd x - x\<bar> \<le> 1 / 2 ^ 51"
  using assms by (simp add: rounds_like_float_def)

lemma rnd_mono:
  assumes "rounds_like_float rnd" and "- 8 \<le> x" and "x \<le> y" and "y \<le> 8"
  shows "rnd x \<le> rnd y"
  using assms unfolding rounds_like_float_def by blast

lemma sum_list_bounds:
  fixes vs :: "real list"
  shows "\<forall>v \<in> set vs. lo \<le> v \<and> v \<le> hi
     \<Longrightarrow> real (length vs) * lo \<le> sum_list vs \<and> sum_list vs \<le> real (length vs) * hi"
  by (induction vs) (auto simp: algebra_simps)

lemma sum_list_nonneg_range:
  fixes vs :: "real list"
  assumes "\<forall>v \<in> set vs. 1 / 100 \<le> v \<and> v \<le> 1"
  shows "0 \<le> sum_list vs"
proof -
  have "real (length vs) * (1 / 100) \<le> sum_list vs"
    using assms sum_list_bounds [of vs "1 / 100" 1] by simp
  moreover have "0 \<le> real (length vs) * (1 / 100)"
    by simp
  ultimately show ?thesis by linarith
qed

lemma foldl_float_add_error:
  fixes eps :: real
  assumes step: "\<And>x. \<bar>x\<bar> \<le> 8 \<Longrightarrow> \<bar>rnd x - x\<bar> \<le> eps"
    and eps: "0 \<le> eps" "eps \<le> 1 / 1000"
  shows "\<forall>v \<in> set vs. 1 / 100 \<le> v \<and> v \<le> 1 \<Longrightarrow> 0 \<le> a
     \<Longrightarrow> a + sum_list vs + real (length vs) * eps \<le> 15 / 2
     \<Longrightarrow> \<bar>foldl (float_add rnd) a vs - (a + sum_list vs)\<bar> \<le> real (length vs) * eps"
proof (induction vs arbitrary: a)
  case Nil
  then show ?case by simp
next
  case (Cons v vs)
  have v: "1 / 100 \<le> v" "v \<le> 1" using Cons.prems(1) by simp_all
  have nonneg: "0 \<le> sum_list vs"
    using Cons.prems(1) by (intro sum_list_nonneg_range) simp
  have n: "0 \<le> real (length vs) * eps" using eps(1) by simp
  have len: "real (length (v # vs)) * eps = real (length vs) * eps + eps"
    by (simp add: algebra_simps)
  have p3: "a + v + sum_list vs + real (length vs) * eps + eps \<le> 15 / 2"
    using Cons.prems(3) by (simp add: algebra_simps)
  have "\<bar>a + v\<bar> \<le> 8"
    using p3 nonneg n eps(1) v Cons.prems(2) by linarith
  then have e: "\<bar>rnd (a + v) - (a + v)\<bar> \<le> eps"
    by (rule step)
  have e1: "rnd (a + v) \<le> a + v + eps" and e2: "a + v - eps \<le> rnd (a + v)"
    using e by linarith+
  have a': "0 \<le> rnd (a + v)" using e2 eps v Cons.prems(2) by linarith
  have "rnd (a + v) + sum_list vs + real (length vs) * eps \<le> 15 / 2"
    using e1 p3 by linarith
  with Cons.IH [of "rnd (a + v)"] Cons.prems(1) a'
  have "\<bar>foldl (float_add rnd) (rnd (a + v)) vs - (rnd (a + v) + sum_list vs)\<bar>
      \<le> real (length vs) * eps"
    by simp
  then have "\<bar>foldl (float_add rnd) (rnd (a + v)) vs - (a + v + sum_list vs)\<bar>
      \<le> real (length vs) * eps + eps"
    using e1 e2 by linarith
  moreover have "foldl (float_add rnd) a (v # vs) = foldl (float_add rnd) (rnd (a + v)) vs"
    using float_add_def [of rnd a v] by simp
  ultimately show ?case
    using len by (simp add: add.assoc)
qed

lemma compensated_sum_error:
  fixes eps :: real
  assumes step: "\<And>x. \<bar>x\<bar> \<le> 8 \<Longrightarrow> \<bar>rnd x - x\<bar> \<le> eps"
    and eps: "0 \<le> eps" "eps \<le> 1 / 1000"
  shows "\<forall>v \<in> set xs. 1 / 100 \<le> v \<and> v \<le> 1 \<Longrightarrow> 0 \<le> f
     \<Longrightarrow> f + sum_list xs + real (length xs) * eps \<le> 15 / 2
     \<Longrightarrow> \<bar>c\<bar> + 4 * (real (length xs) * eps) \<le> 1 / 2
     \<Longrightarrow> \<bar>compensated_sum rnd f c xs - (f + sum_list xs)\<bar>
           \<le> \<bar>c\<bar> + 5 * (real (length xs) * eps) + eps"
proof (induction xs arbitrary: f c)
  case Nil
  show ?case
  proof (cases "c = 0")
    case True
    then show ?thesis using eps(1) by simp
  next
    case False
    have "0 \<le> f" and "f \<le> 15 / 2" and "\<bar>c\<bar> \<le> 1 / 2"
      using Nil.prems by simp_all
    then have "\<bar>f + c\<bar> \<le> 8"
      by linarith
    then have "\<bar>rnd (f + c) - (f + c)\<bar> \<le> eps"
      by (rule step)
    then have "\<bar>rnd (f + c) - f\<bar> \<le> \<bar>c\<bar> + eps"
      by linarith
    then show ?thesis using False by simp
  qed
next
  case (Cons x xs)
  define t where "t = rnd (f + x)"
  define inc where "inc = (if \<bar>f\<bar> \<ge> \<bar>x\<bar> then rnd (rnd (f - t) + x) else rnd (rnd (x - t) + f))"
  define c' where "c' = rnd (c + inc)"
  have unfold: "compensated_sum rnd f c (x # xs) = compensated_sum rnd t c' xs"
    by (simp add: t_def inc_def c'_def Let_def)
  have x: "1 / 100 \<le> x" "x \<le> 1" using Cons.prems(1) by simp_all
  have nonneg: "0 \<le> sum_list xs"
    using Cons.prems(1) by (intro sum_list_nonneg_range) simp
  have n: "0 \<le> real (length xs) * eps" using eps(1) by simp
  have len: "real (length (x # xs)) * eps = real (length xs) * eps + eps"
    by (simp add: algebra_simps)
  have p3: "f + x + sum_list xs + real (length xs) * eps + eps \<le> 15 / 2"
    using Cons.prems(3) by (simp add: algebra_simps)
  have p4: "\<bar>c\<bar> + 4 * (real (length xs) * eps) + 4 * eps \<le> 1 / 2"
    using Cons.prems(4) by (simp add: algebra_simps)
  have f: "0 \<le> f" "f + x \<le> 15 / 2"
    using Cons.prems(2) p3 nonneg n eps(1) by linarith+
  have "\<bar>f + x\<bar> \<le> 8"
    using f x by linarith
  then have "\<bar>rnd (f + x) - (f + x)\<bar> \<le> eps"
    by (rule step)
  then have t: "t \<le> f + x + eps" "f + x - eps \<le> t"
    unfolding t_def by linarith+
  have inc: "\<bar>inc\<bar> \<le> 3 * eps"
  proof (cases "\<bar>f\<bar> \<ge> \<bar>x\<bar>")
    case True
    have "\<bar>f - t\<bar> \<le> 8"
      using t f x eps by linarith
    then have "\<bar>rnd (f - t) - (f - t)\<bar> \<le> eps"
      by (rule step)
    then have a: "rnd (f - t) + x \<le> 2 * eps" "- (2 * eps) \<le> rnd (f - t) + x"
      using t by linarith+
    then have "\<bar>rnd (f - t) + x\<bar> \<le> 8"
      using eps by linarith
    then have "\<bar>rnd (rnd (f - t) + x) - (rnd (f - t) + x)\<bar> \<le> eps"
      by (rule step)
    then have "\<bar>rnd (rnd (f - t) + x)\<bar> \<le> 3 * eps"
      using a by linarith
    then show ?thesis using True by (simp add: inc_def)
  next
    case False
    have "\<bar>x - t\<bar> \<le> 8"
      using t f x eps by linarith
    then have "\<bar>rnd (x - t) - (x - t)\<bar> \<le> eps"
      by (rule step)
    then have a: "rnd (x - t) + f \<le> 2 * eps" "- (2 * eps) \<le> rnd (x - t) + f"
      using t by linarith+
    then have "\<bar>rnd (x - t) + f\<bar> \<le> 8"
      using eps by linarith
    then have "\<bar>rnd (rnd (x - t) + f) - (rnd (x - t) + f)\<bar> \<le> eps"
      by (rule step)
    then have "\<bar>rnd (rnd (x - t) + f)\<bar> \<le> 3 * eps"
      using a by linarith
    then show ?thesis using False by (simp add: inc_def)
  qed
  have "\<bar>c + inc\<bar> \<le> 8"
    using inc p4 n eps by linarith
  then have "\<bar>rnd (c + inc) - (c + inc)\<bar> \<le> eps"
    by (rule step)
  then have c': "\<bar>c'\<bar> \<le> \<bar>c\<bar> + 4 * eps"
    unfolding c'_def using inc by linarith
  have "0 \<le> t"
    using t f x eps by linarith
  moreover have "t + sum_list xs + real (length xs) * eps \<le> 15 / 2"
    using t p3 by linarith
  moreover have "\<bar>c'\<bar> + 4 * (real (length xs) * eps) \<le> 1 / 2"
    using c' p4 by linarith
  ultimately have "\<bar>compensated_sum rnd t c' xs - (t + sum_list xs)\<bar>
      \<le> \<bar>c'\<bar> + 5 * (real (length xs) * eps) + eps"
    using Cons.IH [of t c'] Cons.prems(1) by simp
  then have "\<bar>compensated_sum rnd t c' xs - (t + sum_list xs)\<bar>
      \<le> \<bar>c\<bar> + 4 * eps + 5 * (real (length xs) * eps) + eps"
    using c' by linarith
  moreover have "\<bar>(t + sum_list xs) - (f + x + sum_list xs)\<bar> \<le> eps"
    using t by linarith
  ultimately have "\<bar>compensated_sum rnd t c' xs - (f + x + sum_list xs)\<bar>
      \<le> \<bar>c\<bar> + 4 * eps + 5 * (real (length xs) * eps) + eps + eps"
    by linarith
  then have "\<bar>compensated_sum rnd t c' xs - (f + x + sum_list xs)\<bar>
      \<le> \<bar>c\<bar> + 5 * (real (length xs) * eps + eps) + eps"
    by (simp add: algebra_simps)
  then show ?case
    unfolding unfold using len by (simp add: add.assoc)
qed

lemma py_sum_error:
  assumes r: "rounds_like_float rnd" and range: "\<forall>v \<in> set vs. 1 / 100 \<le> v \<and> v \<le> 1"
    and len: "length vs = 7"
  shows "\<bar>py_sum impl rnd vs - sum_list vs\<bar> \<le> 1 / 2 ^ 46"
proof -
  define eps :: real where "eps = 1 / 2 ^ 51"
  have eps: "0 \<le> eps" "eps \<le> 1 / 1000"
    by (simp_all add: eps_def)
  have step: "\<bar>rnd x - x\<bar> \<le> eps" if "\<bar>x\<bar> \<le> 8" for x
    unfolding eps_def using r that by (rule rnd_error)
  obtain x xs where vs: "vs = x # xs"
    using len by (cases vs) simp_all
  have lxs: "real (length xs) = 6"
    using len vs by simp
  have x: "1 / 100 \<le> x" "x \<le> 1"
    using range vs by simp_all
  have xs: "\<forall>v \<in> set xs. 1 / 100 \<le> v \<and> v \<le> 1"
    using range vs by simp
  have sum_xs: "0 \<le> sum_list xs" "sum_list xs \<le> 6"
    using xs sum_list_bounds [of xs "1 / 100" 1] lxs by simp_all
  define f where "f = rnd (0 + x)"
  have "\<bar>0 + x\<bar> \<le> 8" using x by linarith
  then have "\<bar>rnd (0 + x) - (0 + x)\<bar> \<le> eps"
    by (rule step)
  then have f: "f \<le> x + eps" "x - eps \<le> f"
    unfolding f_def by linarith+
  have f0: "0 \<le> f" using f x eps by linarith
  have six: "real (length xs) * eps = 6 * eps"
    by (simp add: lxs)
  have room: "f + sum_list xs + real (length xs) * eps \<le> 15 / 2"
    unfolding six using f x sum_xs eps by linarith
  have bound: "32 * eps = 1 / 2 ^ 46"
    by (simp add: eps_def)
  show ?thesis
  proof (cases impl)
    case Plain
    have "\<bar>foldl (float_add rnd) f xs - (f + sum_list xs)\<bar> \<le> real (length xs) * eps"
      using step eps xs f0 room by (rule foldl_float_add_error)
    then have "\<bar>foldl (float_add rnd) f xs - (x + sum_list xs)\<bar> \<le> 32 * eps"
      unfolding six using f eps by linarith
    then show ?thesis
      using Plain by (simp add: py_sum_def vs float_add_def f_def bound)
  next
    case Compensated
    have "\<bar>0::real\<bar> + 4 * (real (length xs) * eps) \<le> 1 / 2"
      unfolding six using eps by linarith
    with step eps xs f0 room
    have "\<bar>compensated_sum rnd f 0 xs - (f + sum_list xs)\<bar>
        \<le> \<bar>0\<bar> + 5 * (real (length xs) * eps) + eps"
      by (rule compensated_sum_error)
    then have "\<bar>compensated_sum rnd f 0 xs - (x + sum_list xs)\<bar> \<le> 32 * eps"
      unfolding six using f eps by linarith
    then show ?thesis
      using Compensated by (simp add: py_sum_def vs float_add_def f_def bound)
  qed
qed


lemma sum_list_close:
  fixes f g :: "'a \<Rightarrow> real"
  shows "\<forall>x \<in> set xs. \<bar>f x - g x\<bar> \<le> eps
     \<Longrightarrow> \<bar>sum_list (map f xs) - sum_list (map g xs)\<bar> \<le> real (length xs) * eps"
proof (induction xs)
  case Nil
  then show ?case by simp
next
  case (Cons x xs)
  then have "\<bar>f x - g x\<bar> \<le> eps"
    and "\<bar>sum_list (map f xs) - sum_list (map g xs)\<bar> \<le> real (length xs) * eps"
    by simp_all
  then have "\<bar>f x + sum_list (map f xs) - (g x + sum_list (map g xs))\<bar>
      \<le> real (length xs) * eps + eps"
    by linarith
  then show ?case by (simp add: algebra_simps)
qed

lemma sum_list_divide:
  fixes f :: "'a \<Rightarrow> real"
  shows "sum_list (map (\<lambda>x. f x / c) xs) = sum_list (map f xs) / c"
  by (induction xs) (simp_all add: add_divide_distrib)

lemma raw_scores:
  "AList.update (emotion_value e) c (map (\<lambda>e'. (emotion_value e', draw e')) all_emotions)
     = map (\<lambda>e'. (emotion_value e', (draw(e := c)) e')) all_emotions"
  by (cases e) (simp_all add: all_emotions_def)

lemma analyze_emotion_with_confidence_unfold:
  "analyze_emotion_with_confidence impl rnd draw confidence text =
     (analyze_emotion text, confidence,
      map (\<lambda>e'. (emotion_value e',
             rnd ((draw(analyze_emotion text := confidence)) e'
                  / py_sum impl rnd
                      (map (draw(analyze_emotion text := confidence)) all_emotions))))
        all_emotions)"
  by (simp add: analyze_emotion_with_confidence_def raw_scores Let_def float_div_def comp_def
      fun_upd_def)

lemma map_of_scores:
  "map_of (map (\<lambda>e'. (emotion_value e', s e')) all_emotions) (emotion_value e) = Some (s e)"
  by (cases e) (simp_all add: all_emotions_def)

lemma set_all_emotions: "set all_emotions = UNIV"
proof -
  have "e \<in> set all_emotions" for e
    by (cases e) (simp_all add: all_emotions_def)
  then show ?thesis by blast
qed

lemma raw_sum_bounds:
  assumes "draws_in_range draw confidence"
  shows "123 / 100 \<le> sum_list (map (draw(e := confidence)) all_emotions)
    \<and> sum_list (map (draw(e := confidence)) all_emotions) \<le> 282 / 100"
proof -
  have d: "9 / 100 \<le> draw e' \<and> draw e' \<le> 31 / 100" for e'
    using assms by (simp add: draws_in_range_def set_all_emotions)
  have c: "69 / 100 \<le> confidence \<and> confidence \<le> 96 / 100"
    using assms by (simp add: draws_in_range_def)
  show ?thesis
    using d [of JOY] d [of ANGER] d [of SADNESS] d [of SURPRISE] d [of FEAR] d [of DISGUST]
      d [of NEUTRAL] c
    by (cases e) (simp_all add: all_emotions_def)
qed

lemma normalised_scores:
  fixes rnd :: "real \<Rightarrow> real" and draw :: "Emotion \<Rightarrow> real" and confidence :: real
    and e :: Emotion and impl :: sum_impl
  assumes r: "rounds_like_float rnd" and dr: "draws_in_range draw confidence"
  defines "d \<equiv> draw(e := confidence)"
  defines "T \<equiv> py_sum impl rnd (map d all_emotions)"
  defines "s \<equiv> (\<lambda>e'. rnd (d e' / T))"
  shows "\<forall>e'. 1 / 100 \<le> s e' \<and> s e' \<le> 1"
    and "\<forall>e'. s e' \<le> s e"
    and "s e < confidence"
    and "\<bar>sum_list (map s all_emotions) - 1\<bar> \<le> 1 / 10 ^ 6"
    and "\<bar>py_sum impl rnd (map s all_emotions) - 1\<bar> \<le> 1 / 10 ^ 6"
proof -
  define S where "S = sum_list (map d all_emotions)"
  define u :: real where "u = 1 / 2 ^ 51"
  define ea :: real where "ea = 1 / 2 ^ 46"
  have u: "0 \<le> u" "u \<le> 1 / 1000000000"
    by (simp_all add: u_def)
  have ea: "0 \<le> ea" "ea \<le> 1 / 1000000000"
    by (simp_all add: ea_def)
  have draw: "9 / 100 \<le> draw e' \<and> draw e' \<le> 31 / 100" for e'
    using dr by (simp add: draws_in_range_def set_all_emotions)
  have conf: "69 / 100 \<le> confidence" "confidence \<le> 96 / 100"
    using dr by (simp_all add: draws_in_range_def)
  have d_e: "d e = confidence"
    by (simp add: d_def)
  have d_other: "d e' \<le> 31 / 100" if "e' \<noteq> e" for e'
    using that draw [of e'] by (simp add: d_def)
  have d_range: "9 / 100 \<le> d e' \<and> d e' \<le> 96 / 100" for e'
    using draw [of e'] conf by (simp add: d_def)
  have S: "123 / 100 \<le> S" "S \<le> 282 / 100"
    using raw_sum_bounds [OF dr, of e] by (simp_all add: S_def d_def)
  have len: "length all_emotions = 7"
    by (simp add: all_emotions_def)
  have "\<forall>v \<in> set (map d all_emotions). 1 / 100 \<le> v \<and> v \<le> 1"
  proof
    fix v
    assume "v \<in> set (map d all_emotions)"
    then obtain e' where "v = d e'" by auto
    then show "1 / 100 \<le> v \<and> v \<le> 1"
      using d_range [of e'] by simp
  qed
  with r have TS: "\<bar>T - S\<bar> \<le> ea"
    unfolding T_def S_def ea_def by (rule py_sum_error) (simp add: len)
  have T: "122 / 100 \<le> T" "T \<le> 283 / 100"
    using TS S ea by linarith+
  have Tpos: "0 < T" using T by linarith
  have q_range: "3 / 100 \<le> d e' / T \<and> d e' / T \<le> 4 / 5" for e'
  proof -
    have "3 / 100 * T \<le> d e'" and "d e' \<le> 4 / 5 * T"
      using d_range [of e'] T by linarith+
    then show ?thesis
      using Tpos by (simp add: pos_le_divide_eq pos_divide_le_eq)
  qed
  have s_err: "\<bar>s e' - d e' / T\<bar> \<le> u" for e'
  proof -
    have "\<bar>d e' / T\<bar> \<le> 8"
      using q_range [of e'] by linarith
    with r show ?thesis
      unfolding s_def u_def by (rule rnd_error)
  qed
  have s_range: "1 / 100 \<le> s e' \<and> s e' \<le> 1" for e'
    using s_err [of e'] q_range [of e'] u by linarith
  then show "\<forall>e'. 1 / 100 \<le> s e' \<and> s e' \<le> 1"
    by blast
  show "\<forall>e'. s e' \<le> s e"
  proof
    fix e'
    show "s e' \<le> s e"
    proof (cases "e' = e")
      case True
      then show ?thesis by simp
    next
      case False
      then have "d e' \<le> d e"
        using d_other [of e'] conf d_e by linarith
      then have "d e' / T \<le> d e / T"
        using Tpos by (simp add: divide_right_mono)
      moreover have "- 8 \<le> d e' / T" and "d e / T \<le> 8"
        using q_range [of e'] q_range [of e] by linarith+
      ultimately show ?thesis
        unfolding s_def using rnd_mono [OF r] by blast
    qed
  qed
  show "s e < confidence"
  proof -
    have "100 / 122 * confidence \<le> confidence - 12 / 100"
      using conf by linarith
    moreover have "confidence \<le> 100 / 122 * confidence * T"
    proof -
      have "confidence * (122 / 100) \<le> confidence * T"
        using T conf by (intro mult_left_mono) linarith+
      then show ?thesis by (simp add: algebra_simps)
    qed
    then have "d e / T \<le> 100 / 122 * confidence"
      using Tpos by (simp add: pos_divide_le_eq d_e)
    ultimately show ?thesis
      using s_err [of e] u by linarith
  qed
  have "\<bar>sum_list (map s all_emotions) - sum_list (map (\<lambda>e'. d e' / T) all_emotions)\<bar>
      \<le> real (length all_emotions) * u"
    using s_err by (intro sum_list_close) simp
  then have close: "\<bar>sum_list (map s all_emotions) - S / T\<bar> \<le> 7 * u"
    by (simp add: sum_list_divide S_def len)
  have "S / T - 1 = (S - T) / T"
    using Tpos by (simp add: diff_divide_distrib)
  then have "\<bar>S / T - 1\<bar> = \<bar>S - T\<bar> / T"
    using Tpos by simp
  also have "\<dots> \<le> \<bar>S - T\<bar> / 1"
    using T by (intro divide_left_mono) linarith+
  also have "\<dots> \<le> ea"
    using TS by (simp add: abs_minus_commute)
  finally have ratio: "\<bar>S / T - 1\<bar> \<le> ea" .
  have exact_sum: "\<bar>sum_list (map s all_emotions) - 1\<bar> \<le> 7 * u + ea"
    using close ratio by linarith
  have "7 * u + ea + ea \<le> 1 / 1000000"
    using u ea by linarith
  then have small: "7 * u + ea + ea \<le> 1 / 10 ^ 6"
    by simp
  show "\<bar>sum_list (map s all_emotions) - 1\<bar> \<le> 1 / 10 ^ 6"
    using exact_sum small ea by linarith
  have "\<forall>v \<in> set (map s all_emotions). 1 / 100 \<le> v \<and> v \<le> 1"
  proof
    fix v
    assume "v \<in> set (map s all_emotions)"
    then obtain e' where "v = s e'" by auto
    then show "1 / 100 \<le> v \<and> v \<le> 1"
      using s_range [of e'] by simp
  qed
  with r have "\<bar>py_sum impl rnd (map s all_emotions) - sum_list (map s all_emotions)\<bar> \<le> ea"
    unfolding ea_def by (rule py_sum_error) (simp add: len)
  then show "\<bar>py_sum impl rnd (map s all_emotions) - 1\<bar> \<le> 1 / 10 ^ 6"
    using exact_sum small by linarith
qed

lemma sample_in_range: "rounds_like_float exact \<and> draws_in_range sample_draw (3 / 4)"
  by (simp add: rounds_like_float_def exact_def draws_in_range_def all_emotions_def)

text \<open>
  The binary64 values of the literals 0.1, 0.7, 0.3 and 0.95, which are the ends of the
  ranges of outcomes, are admitted.
\<close>

lemma float_endpoints_in_range:
  "draws_in_range (\<lambda>e. 3602879701896397 / 2 ^ 55) (3152519739159347 / 2 ^ 52)
   \<and> draws_in_range (\<lambda>e. 5404319552844595 / 2 ^ 54) (4278419646001971 / 2 ^ 52)"
  by (simp add: draws_in_range_def)

lemma sample_run:
  "analyze_emotion_with_confidence impl exact sample_draw (3 / 4) ''I am happy'' =
     (JOY, 3 / 4,
      [(''joy'', 3 / 8), (''anger'', 1 / 8), (''sadness'', 1 / 8), (''surprise'', 1 / 8),
       (''fear'', 1 / 16), (''disgust'', 1 / 8), (''neutral'', 1 / 16)])"
proof -
  have "analyze_emotion ''I am happy'' = JOY"
    by code_simp
  then show ?thesis
    by (cases impl)
      (simp_all add: analyze_emotion_with_confidence_unfold all_emotions_def py_sum_def
        float_add_def exact_def)
qed


text \<open>
  Claim C7. For every text, every outcome of the random draws, either implementation of
  \<open>sum\<close> and float rounding, the scores returned by
  \<open>analyze_emotion_with_confidence\<close> have exactly the seven emotion labels as keys,
  every value is strictly positive, the values sum to 1 within \<open>1e-6\<close> (as an exact
  sum, and as the float sum that \<open>sum\<close> computes), and the score of the primary label
  is the maximum of the values.
\<close>

theorem scores_form_distribution:
  assumes "rounds_like_float rnd" and "draws_in_range draw confidence"
  shows "case analyze_emotion_with_confidence impl rnd draw confidence text of
     (emotion, c, scores) \<Rightarrow>
       map fst scores
         = [''joy'', ''anger'', ''sadness'', ''surprise'', ''fear'', ''disgust'', ''neutral'']
       \<and> (\<forall>v \<in> set (map snd scores). 0 < v)
       \<and> \<bar>sum_list (map snd scores) - 1\<bar> \<le> 1 / 10 ^ 6
       \<and> \<bar>py_sum impl rnd (map snd scores) - 1\<bar> \<le> 1 / 10 ^ 6
       \<and> map_of scores (emotion_value emotion) = Some (Max (set (map snd scores)))"
proof -
  define e where "e = analyze_emotion text"
  define s where "s = (\<lambda>e'. rnd ((draw(e := confidence)) e'
      / py_sum impl rnd (map (draw(e := confidence)) all_emotions)))"
  define scores where "scores = map (\<lambda>e'. (emotion_value e', s e')) all_emotions"
  have run: "analyze_emotion_with_confidence impl rnd draw confidence text
      = (e, confidence, scores)"
    by (simp add: analyze_emotion_with_confidence_unfold e_def s_def scores_def)
  have vals: "map snd scores = map s all_emotions"
    by (simp add: scores_def comp_def)
  have range: "\<forall>e'. 1 / 100 \<le> s e' \<and> s e' \<le> 1"
    unfolding s_def by (rule normalised_scores(1) [OF assms])
  have largest: "\<forall>e'. s e' \<le> s e"
    unfolding s_def by (rule normalised_scores(2) [OF assms])
  have total: "\<bar>sum_list (map snd scores) - 1\<bar> \<le> 1 / 10 ^ 6"
    unfolding vals s_def by (rule normalised_scores(4) [OF assms])
  have float_total: "\<bar>py_sum impl rnd (map snd scores) - 1\<bar> \<le> 1 / 10 ^ 6"
    unfolding vals s_def by (rule normalised_scores(5) [OF assms])
  have keys: "map fst scores
      = [''joy'', ''anger'', ''sadness'', ''surprise'', ''fear'', ''disgust'', ''neutral'']"
    by (simp add: scores_def all_emotions_def)
  have pos: "\<forall>v \<in> set (map snd scores). 0 < v"
  proof
    fix v
    assume "v \<in> set (map snd scores)"
    then obtain e' where "v = s e'" by (auto simp: vals)
    moreover have "1 / 100 \<le> s e'" using range by blast
    ultimately show "0 < v" by linarith
  qed
  have "Max (set (map snd scores)) = s e"
  proof (rule Max_eqI)
    show "finite (set (map snd scores))" by simp
    show "s e \<in> set (map snd scores)"
      by (simp add: vals set_all_emotions)
    fix y
    assume "y \<in> set (map snd scores)"
    then obtain e' where "y = s e'" by (auto simp: vals)
    then show "y \<le> s e" using largest by simp
  qed
  then have top: "map_of scores (emotion_value e) = Some (Max (set (map snd scores)))"
    by (simp add: scores_def map_of_scores)
  show ?thesis
    unfolding run prod.case using keys pos total float_total top by blast
qed

text \<open>
  A run on which every float operation is exact, so that exact arithmetic is the float
  arithmetic: the text "I am happy", confidence 3/4, draws 1/4 and 1/8. The raw total
  is 2. A second run has the smallest confidence that can be drawn, the float 0.7.
\<close>

theorem scores_form_distribution_witness:
  "rounds_like_float exact \<and> draws_in_range sample_draw (3 / 4)
   \<and> analyze_emotion_with_confidence Plain exact sample_draw (3 / 4) ''I am happy'' =
       (JOY, 3 / 4,
        [(''joy'', 3 / 8), (''anger'', 1 / 8), (''sadness'', 1 / 8), (''surprise'', 1 / 8),
         (''fear'', 1 / 16), (''disgust'', 1 / 8), (''neutral'', 1 / 16)])
   \<and> \<bar>sum_list [3 / 8, 1 / 8, 1 / 8, 1 / 8, 1 / 16, 1 / 8, 1 / 16 :: real] - 1\<bar> \<le> 1 / 10 ^ 6
   \<and> Max (set [3 / 8, 1 / 8, 1 / 8, 1 / 8, 1 / 16, 1 / 8, 1 / 16 :: real]) = 3 / 8
   \<and> draws_in_range sample_draw (3152519739159347 / 4503599627370496)
   \<and> \<bar>sum_list (map snd (snd (snd (analyze_emotion_with_confidence Compensated exact
          sample_draw (3152519739159347 / 4503599627370496) ''I am happy'')))) - 1\<bar>
       \<le> 1 / 10 ^ 6"
proof -
  have h: "rounds_like_float exact" "draws_in_range sample_draw (3 / 4)"
    using sample_in_range by simp_all
  have low: "draws_in_range sample_draw (3152519739159347 / 4503599627370496)"
    by (simp add: draws_in_range_def all_emotions_def)
  have "\<bar>sum_list (map snd (snd (snd (analyze_emotion_with_confidence Compensated exact
          sample_draw (3152519739159347 / 4503599627370496) ''I am happy'')))) - 1\<bar>
       \<le> 1 / 10 ^ 6"
    using scores_form_distribution [OF h(1) low, of Compensated "''I am happy''"]
    by (simp only: case_prod_beta)
  then show ?thesis
    using scores_form_distribution [OF h, of Plain "''I am happy''"] h low
    by (simp add: sample_run)
qed

text \<open>
  Claim C3, amended. The confidence that \<open>analyze_emotion_with_confidence\<close> returns
  is the raw draw for the primary label, as it was before normalisation. The primary
  label's score in the returned map is that draw divided by the total of the raw scores,
  and it is strictly smaller than the returned confidence.
\<close>

theorem confidence_is_raw_draw:
  assumes "rounds_like_float rnd" and "draws_in_range draw confidence"
  shows "case analyze_emotion_with_confidence impl rnd draw confidence text of
     (emotion, c, scores) \<Rightarrow>
       c = confidence
       \<and> map_of scores (emotion_value emotion)
           = Some (float_div rnd confidence
                     (py_sum impl rnd (map (draw(emotion := confidence)) all_emotions)))
       \<and> (\<exists>s. map_of scores (emotion_value emotion) = Some s \<and> s < c)"
proof -
  define e where "e = analyze_emotion text"
  define s where "s = (\<lambda>e'. rnd ((draw(e := confidence)) e'
      / py_sum impl rnd (map (draw(e := confidence)) all_emotions)))"
  define scores where "scores = map (\<lambda>e'. (emotion_value e', s e')) all_emotions"
  have run: "analyze_emotion_with_confidence impl rnd draw confidence text
      = (e, confidence, scores)"
    by (simp add: analyze_emotion_with_confidence_unfold e_def s_def scores_def)
  have top: "map_of scores (emotion_value e) = Some (s e)"
    by (simp add: scores_def map_of_scores)
  have "s e < confidence"
    unfolding s_def by (rule normalised_scores(3) [OF assms])
  moreover have "s e = float_div rnd confidence
      (py_sum impl rnd (map (draw(e := confidence)) all_emotions))"
    by (simp add: s_def float_div_def)
  ultimately show ?thesis
    using top by (simp add: run)
qed

text \<open>
  On the run above the confidence is 3/4 and the primary score is 3/8; with the float 0.7
  drawn, the confidence returned is that float.
\<close>

theorem confidence_is_raw_draw_witness:
  "rounds_like_float exact \<and> draws_in_range sample_draw (3 / 4)
   \<and> fst (snd (analyze_emotion_with_confidence Compensated exact sample_draw (3 / 4)
        ''I am happy'')) = 3 / 4
   \<and> map_of (snd (snd (analyze_emotion_with_confidence Compensated exact sample_draw (3 / 4)
        ''I am happy''))) ''joy'' = Some (3 / 8)
   \<and> (3 / 8 :: real) < 3 / 4
   \<and> draws_in_range sample_draw (3152519739159347 / 4503599627370496)
   \<and> fst (snd (analyze_emotion_with_confidence Plain exact sample_draw
        (3152519739159347 / 4503599627370496) ''I am happy''))
       = 3152519739159347 / 4503599627370496"
proof -
  have h: "rounds_like_float exact" "draws_in_range sample_draw (3 / 4)"
    using sample_in_range by simp_all
  have low: "draws_in_range sample_draw (3152519739159347 / 4503599627370496)"
    by (simp add: draws_in_range_def all_emotions_def)
  have "fst (snd (analyze_emotion_with_confidence Plain exact sample_draw
        (3152519739159347 / 4503599627370496) ''I am happy''))
       = 3152519739159347 / 4503599627370496"
    using confidence_is_raw_draw [OF h(1) low, of Plain "''I am happy''"]
    by (simp only: case_prod_beta)
  then show ?thesis
    using confidence_is_raw_draw [OF h, of Compensated "''I am happy''"] h low
    by (simp add: sample_run)
qed

text \<open>
  Claim C3, as stated, fails: on the run above the returned confidence, 3/4, is not the
  primary label's score in the returned map, 3/8, with either implementation of
  \<open>sum\<close>.
\<close>

theorem confidence_not_normalised_counterexample:
  "rounds_like_float exact \<and> draws_in_range sample_draw (3 / 4)
   \<and> fst (analyze_emotion_with_confidence Plain exact sample_draw (3 / 4) ''I am happy'') = JOY
   \<and> fst (snd (analyze_emotion_with_confidence Plain exact sample_draw (3 / 4)
        ''I am happy'')) = 3 / 4
   \<and> map_of (snd (snd (analyze_emotion_with_confidence Plain exact sample_draw (3 / 4)
        ''I am happy''))) (emotion_value JOY) = Some (3 / 8)
   \<and> map_of (snd (snd (analyze_emotion_with_confidence Plain exact sample_draw (3 / 4)
        ''I am happy''))) (emotion_value JOY)
       \<noteq> Some (fst (snd (analyze_emotion_with_confidence Plain exact sample_draw (3 / 4)
                ''I am happy'')))
   \<and> map_of (snd (snd (analyze_emotion_with_confidence Compensated exact sample_draw (3 / 4)
        ''I am happy''))) (emotion_value JOY)
       \<noteq> Some (fst (snd (analyze_emotion_with_confidence Compensated exact sample_draw (3 / 4)
                ''I am happy'')))"
  using sample_in_range by (simp add: sample_run)

section \<open>Response tables\<close>

lemma first_response_None:
  "first_response T t = None \<longleftrightarrow> (\<forall>key \<in> set (map fst T). \<not> str_in key t)"
  by (induction T t rule: first_response.induct) auto

lemma first_response_index:
  "i < length T \<Longrightarrow> str_in (fst (T ! i)) t \<Longrightarrow> \<forall>j < i. \<not> str_in (fst (T ! j)) t
     \<Longrightarrow> first_response T t = Some (snd (T ! i))"
proof (induction T t arbitrary: i rule: first_response.induct)
  case (1 content_lower)
  then show ?case by simp
next
  case (2 key response rest content_lower)
  show ?case
  proof (cases i)
    case 0
    with "2.prems" show ?thesis by simp
  next
    case (Suc n)
    with "2.prems" have nk: "\<not> str_in key content_lower" by auto
    have "\<forall>j < n. \<not> str_in (fst (rest ! j)) content_lower"
      using "2.prems"(3) Suc by auto
    with "2.IH" [of n] nk "2.prems" Suc show ?thesis by simp
  qed
qed

text \<open>
  Claim C2, as stated, fails: the content "xyz" contains no trigger, the reply of
  \<open>generate_nt_response\<close> does not contain it (the reply is the same for "abc"),
  while the reply of \<open>generate_asd_response\<close> does.
\<close>

theorem nt_fallback_echo_counterexample:
  "first_response nt_responses (lower ''xyz'') = None
   \<and> first_response asd_responses (lower ''xyz'') = None
   \<and> \<not> str_in ''xyz'' (generate_nt_response ''xyz'')
   \<and> str_in ''xyz'' (generate_asd_response ''xyz'')
   \<and> generate_nt_response ''xyz'' = generate_nt_response ''abc''"
  by code_simp

text \<open>
  Claim C2, amended. \<open>generate_nt_response\<close> answers from a table with the same
  triggers, in the same order, as the table of \<open>generate_asd_response\<close>: "hello",
  "how are you", "what do you mean", "thanks"; the first trigger occurring in the lowered
  content gives the reply. When no trigger occurs, the reply is one fixed sentence, the
  same for every content, whereas the direct-mode fallback puts the content, verbatim,
  between quotes in its template.
\<close>

theorem nt_response_lookup:
  "map fst nt_responses = map fst asd_responses
   \<and> map fst nt_responses = [''hello'', ''how are you'', ''what do you mean'', ''thanks'']
   \<and> (\<forall>i < length nt_responses.
         str_in (fst (nt_responses ! i)) (lower content)
         \<and> (\<forall>j < i. \<not> str_in (fst (nt_responses ! j)) (lower content))
         \<longrightarrow> generate_nt_response content = snd (nt_responses ! i))
   \<and> ((\<forall>key \<in> set (map fst nt_responses). \<not> str_in key (lower content))
        \<longrightarrow> generate_nt_response content
              = ''That's really interesting! I'd love to hear more about what you're thinking.''
          \<and> generate_asd_response content
              = ''I understand you said: '' @ [CHR 0x27] @ content @ [CHR 0x27]
                @ ''. Could you please clarify what you would like me to do?'')"
proof -
  have keys: "map fst nt_responses = map fst asd_responses"
    by (simp add: nt_responses_def asd_responses_def)
  have "map fst nt_responses = [''hello'', ''how are you'', ''what do you mean'', ''thanks'']"
    by (simp add: nt_responses_def)
  moreover have "\<forall>i < length nt_responses.
         str_in (fst (nt_responses ! i)) (lower content)
         \<and> (\<forall>j < i. \<not> str_in (fst (nt_responses ! j)) (lower content))
         \<longrightarrow> generate_nt_response content = snd (nt_responses ! i)"
    by (simp add: generate_nt_response_def first_response_index)
  moreover have "(\<forall>key \<in> set (map fst nt_responses). \<not> str_in key (lower content))
        \<longrightarrow> generate_nt_response content
              = ''That's really interesting! I'd love to hear more about what you're thinking.''
          \<and> generate_asd_response content
              = ''I understand you said: '' @ [CHR 0x27] @ content @ [CHR 0x27]
                @ ''. Could you please clarify what you would like me to do?''"
  proof
    assume none: "\<forall>key \<in> set (map fst nt_responses). \<not> str_in key (lower content)"
    then have "first_response nt_responses (lower content) = None"
      by (simp only: first_response_None)
    moreover from none have "first_response asd_responses (lower content) = None"
      by (simp only: first_response_None keys)
    ultimately show "generate_nt_response content
              = ''That's really interesting! I'd love to hear more about what you're thinking.''
          \<and> generate_asd_response content
              = ''I understand you said: '' @ [CHR 0x27] @ content @ [CHR 0x27]
                @ ''. Could you please clarify what you would like me to do?''"
      by (simp add: generate_nt_response_def generate_asd_response_def)
  qed
  ultimately show ?thesis using keys by blast
qed

text \<open>A content with the first trigger, and a content with none.\<close>

theorem nt_response_lookup_witness:
  "str_in (fst (nt_responses ! 0)) (lower ''Hello, how are you?'')
   \<and> generate_nt_response ''Hello, how are you?''
       = ''Hi there! Great to see you! How's your day going?''
   \<and> filter (\<lambda>key. str_in key (lower ''xyz'')) (map fst nt_responses) = []
   \<and> generate_nt_response ''xyz''
       = ''That's really interesting! I'd love to hear more about what you're thinking.''
   \<and> generate_asd_response ''xyz''
       = ''I understand you said: 'xyz'. Could you please clarify what you would like me to do?''"
proof -
  have a: "str_in (fst (nt_responses ! 0)) (lower ''Hello, how are you?'')"
    by code_simp
  have b: "snd (nt_responses ! 0) = ''Hi there! Great to see you! How's your day going?''"
    by (simp add: nt_responses_def)
  have c: "filter (\<lambda>key. str_in key (lower ''xyz'')) (map fst nt_responses) = []"
    by code_simp
  then have d: "\<forall>key \<in> set (map fst nt_responses). \<not> str_in key (lower ''xyz'')"
    by (simp add: filter_empty_conv)
  have e: "0 < length nt_responses"
    by (simp add: nt_responses_def)
  from nt_response_lookup [of "''Hello, how are you?''"] a b e
  have "generate_nt_response ''Hello, how are you?''
       = ''Hi there! Great to see you! How's your day going?''"
    by auto
  moreover from nt_response_lookup [of "''xyz''"] d
  have "generate_nt_response ''xyz''
       = ''That's really interesting! I'd love to hear more about what you're thinking.''
     \<and> generate_asd_response ''xyz''
       = ''I understand you said: 'xyz'. Could you please clarify what you would like me to do?''"
    by simp
  ultimately show ?thesis using a c by simp
qed

section \<open>process_message\<close>

lemma process_message_response:
  "fst (process_message fx request mode self) =
     \<lparr>resp_message = (if mode = ASD then generate_asd_response (req_content request)
                       else generate_nt_response (req_content request)),
      resp_emotion = (if mode = ASD then analyze_emotion (req_content request)
                      else adjust_expressed_emotion (analyze_emotion (req_content request))),
      resp_internal_emotion = analyze_emotion (req_content request),
      resp_timestamp = resp_now fx\<rparr>"
  by (simp add: process_message_def Let_def)

lemma process_message_log:
  "messages (snd (process_message fx request mode self)) =
     messages self @
     [\<lparr>msg_id = user_uuid fx, msg_role = USER, msg_content = req_content request,
       msg_timestamp = user_now fx, msg_emotion = req_emotion request,
       msg_internal_emotion = None\<rparr>,
      \<lparr>msg_id = ai_uuid fx, msg_role = ASSISTANT,
       msg_content = resp_message (fst (process_message fx request mode self)),
       msg_timestamp = ai_now fx,
       msg_emotion = resp_emotion (fst (process_message fx request mode self)),
       msg_internal_emotion = Some (resp_internal_emotion (fst (process_message fx request mode self)))\<rparr>]"
  by (simp add: process_message_def Let_def)

lemma adjust_is_suppress: "adjust_expressed_emotion e = suppress e"
  by (cases e) (simp_all add: adjust_expressed_emotion_def suppress_def)

text \<open>
  Claim C4. In NT mode the internal emotion of the reply is the classifier's result on
  the content and the expressed emotion is \<open>suppress\<close> of it, in the reply and in
  the logged assistant message: neutral for sadness, anger and fear, and the internal
  emotion itself for joy, surprise, disgust and neutral.
\<close>

theorem nt_mode_expressed_emotion:
  "resp_internal_emotion (fst (process_message fx request NT self))
     = analyze_emotion (req_content request)
   \<and> resp_emotion (fst (process_message fx request NT self))
     = suppress (resp_internal_emotion (fst (process_message fx request NT self)))
   \<and> msg_emotion (last (messages (snd (process_message fx request NT self))))
     = suppress (analyze_emotion (req_content request))
   \<and> suppress SADNESS = NEUTRAL \<and> suppress ANGER = NEUTRAL \<and> suppress FEAR = NEUTRAL
   \<and> suppress JOY = JOY \<and> suppress SURPRISE = SURPRISE \<and> suppress DISGUST = DISGUST
   \<and> suppress NEUTRAL = NEUTRAL"
  by (simp add: process_message_response process_message_log adjust_is_suppress)
    (simp add: suppress_def)

text \<open>
  Claim C5. In ASD mode the expressed emotion of the reply equals its internal emotion,
  which is the classifier's result on the content; the logged assistant message carries
  the same two values.
\<close>

theorem asd_mode_expressed_emotion:
  "resp_emotion (fst (process_message fx request ASD self))
     = resp_internal_emotion (fst (process_message fx request ASD self))
   \<and> resp_internal_emotion (fst (process_message fx request ASD self))
     = analyze_emotion (req_content request)
   \<and> msg_emotion (last (messages (snd (process_message fx request ASD self))))
     = analyze_emotion (req_content request)
   \<and> msg_internal_emotion (last (messages (snd (process_message fx request ASD self))))
     = Some (analyze_emotion (req_content request))"
  by (simp add: process_message_response process_message_log)

text \<open>
  Claim C6. \<open>process_message\<close> appends exactly two messages to the log, the user
  message and then the assistant message, for every content and mode: the log grows by
  two, the messages stored before are unchanged, and the two new entries have the roles
  user and assistant, in that order.
\<close>

theorem process_message_appends_two:
  "length (messages (snd (process_message fx request mode self)))
     = length (messages self) + 2
   \<and> length (fst (get_history (snd (process_message fx request mode self))))
     = length (fst (get_history self)) + 2
   \<and> take (length (messages self)) (messages (snd (process_message fx request mode self)))
     = messages self
   \<and> map msg_role (drop (length (messages self))
         (messages (snd (process_message fx request mode self)))) = [USER, ASSISTANT]
   \<and> messages (snd (process_message fx request mode self)) =
       messages self @
       [\<lparr>msg_id = user_uuid fx, msg_role = USER, msg_content = req_content request,
         msg_timestamp = user_now fx, msg_emotion = req_emotion request,
         msg_internal_emotion = None\<rparr>,
        \<lparr>msg_id = ai_uuid fx, msg_role = ASSISTANT,
         msg_content = resp_message (fst (process_message fx request mode self)),
         msg_timestamp = ai_now fx,
         msg_emotion = resp_emotion (fst (process_message fx request mode self)),
         msg_internal_emotion =
           Some (resp_internal_emotion (fst (process_message fx request mode self)))\<rparr>]"
  by (simp add: process_message_log get_history_def)

section \<open>History\<close>

text \<open>
  Claim C9. \<open>clear_history\<close> returns true and leaves the log empty, from any state;
  calling it a second time changes nothing; \<open>get_history\<close> right after it returns the
  empty sequence (and leaves the state as it is).
\<close>

theorem clear_history_empties:
  "fst (clear_history self)
   \<and> messages (snd (clear_history self)) = []
   \<and> snd (clear_history (snd (clear_history self))) = snd (clear_history self)
   \<and> fst (get_history (snd (clear_history self))) = []
   \<and> snd (get_history (snd (clear_history self))) = snd (clear_history self)"
  by (simp add: clear_history_def get_history_def)

lemma do_call_preserves:
  "\<forall>m \<in> set (messages self). well_formed m
     \<Longrightarrow> \<forall>m \<in> set (messages (do_call c self)). well_formed m"
  by (cases c) (auto simp: process_message_log clear_history_def well_formed_def)

lemma run_preserves:
  "\<forall>m \<in> set (messages self). well_formed m
     \<Longrightarrow> \<forall>m \<in> set (messages (run calls self)). well_formed m"
  unfolding run_def
proof (induction calls arbitrary: self)
  case Nil
  then show ?case by simp
next
  case (Cons c calls)
  from Cons.prems have "\<forall>m \<in> set (messages (do_call c self)). well_formed m"
    by (rule do_call_preserves)
  then show ?case using Cons.IH by simp
qed

text \<open>
  Claim C8. In the log reached from a new service by any sequence of
  \<open>process_message\<close> and \<open>clear_history\<close> calls, every assistant message has
  \<open>internal_emotion\<close> set and every user message has it unset.
\<close>

theorem internal_emotion_invariant:
  "\<forall>m \<in> set (messages (run calls init_service)).
     (msg_role m = ASSISTANT \<longrightarrow> msg_internal_emotion m \<noteq> None)
     \<and> (msg_role m = USER \<longrightarrow> msg_internal_emotion m = None)"
  using run_preserves [of init_service calls]
  by (simp add: init_service_def well_formed_def)

text \<open>A run of three calls: a request, a clear, a second request in NT mode.\<close>

theorem internal_emotion_invariant_witness:
  "map log_line (messages (run [Process fx1 req1 ASD, Clear, Process fx2 req2 NT] init_service))
     = [(USER, None), (ASSISTANT, Some ANGER)]
   \<and> list_all (\<lambda>m. msg_role m = USER \<or> msg_role m = ASSISTANT \<and> msg_internal_emotion m \<noteq> None)
       (messages (run [Process fx1 req1 ASD, Clear, Process fx2 req2 NT] init_service))"
proof -
  have a: "map log_line (messages (run [Process fx1 req1 ASD, Clear, Process fx2 req2 NT] init_service))
     = [(USER, None), (ASSISTANT, Some ANGER)]"
    by code_simp
  have "list_all (\<lambda>m. msg_role m = USER \<or> msg_role m = ASSISTANT \<and> msg_internal_emotion m \<noteq> None)
       (messages (run [Process fx1 req1 ASD, Clear, Process fx2 req2 NT] init_service))"
    using internal_emotion_invariant [of "[Process fx1 req1 ASD, Clear, Process fx2 req2 NT]"] a
    by (auto simp: list_all_iff log_line_def)
  with a show ?thesis by simp
qed

end
